theory Spec2Isabelle
  imports Main "HOL-Library.Word"
begin

section \<open>The bytecode data model of \<open>libinterp/parse-tree/pt-bytecode.h\<close>\<close>

text \<open>
  The header declares the value types shared by the bytecode compiler and the
  stack-machine executor: the opcode enumeration, the unwind and source-location
  records, the bytecode aggregate, the untagged stack cell, and two tag sets
  (\<open>error_type\<close>, \<open>global_type\<close>).  The development below embeds the records and
  tag sets one to one: an \<open>enum class\<close> is a datatype whose constructors are the
  enumerators in declaration order, a \<open>struct\<close> is a record with the members in
  declaration order.

  A C++ \<open>int\<close> member is a 32-bit two's complement machine integer.  It is a
  \<open>32 word\<close> here; \<open>sint\<close> reads its signed value and \<open>\<le>s\<close>, \<open><s\<close> compare
  signed values.
\<close>

type_synonym c_int = "32 word"

subsection \<open>Unwind entries\<close>

text \<open>
  \<open>enum class unwind_entry_type { INVALID, FOR_LOOP, TRY_CATCH, UNWIND_PROTECT }\<close>
\<close>

datatype unwind_entry_type = INVALID | FOR_LOOP | TRY_CATCH | UNWIND_PROTECT

text \<open>
  \<open>struct unwind_entry\<close>: five members, four \<open>int\<close>s and the kind.
\<close>

record unwind_entry =
  m_ip_start :: c_int
  m_ip_end :: c_int
  m_ip_target :: c_int
  m_stack_depth :: c_int
  m_unwind_entry_type :: unwind_entry_type

text \<open>
  Modelled from the spec: the compiler that emits unwind entries is not part of the
  header (only the record it fills is).  The specification says that the compiler
  "emits one UnwindEntry per protected construct (loop body, try/catch pair,
  unwind-protect block) recording guarded range, handler/resume target, restore
  depth, and kind".  \<open>protected_construct\<close> lists the three constructs,
  \<open>kind_of_construct\<close> gives the kind recorded for each, and \<open>emit_unwind_entry\<close>
  builds the entry recorded for a construct from its guarded range, target and
  restore depth.
\<close>

datatype protected_construct = Loop_body | Try_catch_pair | Unwind_protect_block

fun kind_of_construct :: "protected_construct \<Rightarrow> unwind_entry_type" where
  "kind_of_construct Loop_body = FOR_LOOP"
| "kind_of_construct Try_catch_pair = TRY_CATCH"
| "kind_of_construct Unwind_protect_block = UNWIND_PROTECT"

definition emit_unwind_entry ::
  "protected_construct \<Rightarrow> c_int \<Rightarrow> c_int \<Rightarrow> c_int \<Rightarrow> c_int \<Rightarrow> unwind_entry" where
  "emit_unwind_entry c ip_start ip_end ip_target stack_depth =
     \<lparr>unwind_entry.m_ip_start = ip_start, unwind_entry.m_ip_end = ip_end,
      m_ip_target = ip_target,
      m_stack_depth = stack_depth, m_unwind_entry_type = kind_of_construct c\<rparr>"

subsection \<open>Source locations\<close>

text \<open>
  \<open>struct loc_entry\<close>: every member has the default member initializer \<open>-1\<close>:
  \<^verbatim>\<open>
  int m_ip_start = -1;
  int m_ip_end = -1;
  int m_col = -1;
  int m_line = -1;
  \<close>
  \<open>m_ip_start\<close> and \<open>m_ip_end\<close> are members of \<open>unwind_entry\<close> too; the
  qualified names \<open>unwind_entry.m_ip_start\<close> and \<open>loc_entry.m_ip_start\<close> tell them
  apart, as \<open>e.m_ip_start\<close> does by the type of \<open>e\<close> in C++.
\<close>

record loc_entry =
  m_ip_start :: c_int
  m_ip_end :: c_int
  m_col :: c_int
  m_line :: c_int

text \<open>
  The value of \<open>loc_entry ()\<close>: the implicit default constructor runs the four
  default member initializers.
\<close>

definition default_loc_entry :: loc_entry where
  "default_loc_entry =
     \<lparr>loc_entry.m_ip_start = - 1, loc_entry.m_ip_end = - 1, m_col = - 1, m_line = - 1\<rparr>"

subsection \<open>Error kinds\<close>

text \<open>
  \<open>enum class error_type\<close>, commented in the header as "Enums to describe what error
  message to build".  Its first enumerator is called \<open>INVALID\<close> like the first one
  of \<open>unwind_entry_type\<close>; C++ scopes both by the enumeration, and so do the
  qualified names \<open>error_type.INVALID\<close> and \<open>unwind_entry_type.INVALID\<close>.
\<close>

datatype error_type =
    INVALID
  | ID_UNDEFINED
  | ID_UNDEFINEDN
  | IF_UNDEFINED
  | INDEX_ERROR
  | EXECUTION_EXC
  | INTERRUPT_EXC
  | INVALID_N_EL_RHS_IN_ASSIGNMENT
  | RHS_UNDEF_IN_ASSIGNMENT
  | BAD_ALLOC
  | EXIT_EXCEPTION

subsection \<open>Storage classes of declared variables\<close>

text \<open>
  \<open>enum class global_type { GLOBAL, PERSISTENT, GLOBAL_OR_PERSISTENT }\<close>
\<close>

datatype global_type = GLOBAL | PERSISTENT | GLOBAL_OR_PERSISTENT

section \<open>Enumerations are closed\<close>

lemma unwind_entry_type_UNIV:
  "(UNIV :: unwind_entry_type set) =
     {unwind_entry_type.INVALID, FOR_LOOP, TRY_CATCH, UNWIND_PROTECT}"
  by (auto intro: unwind_entry_type.exhaust)

lemma global_type_UNIV:
  "(UNIV :: global_type set) = {GLOBAL, PERSISTENT, GLOBAL_OR_PERSISTENT}"
  by (auto intro: global_type.exhaust)

lemma global_type_card: "card (UNIV :: global_type set) = 3"
  unfolding global_type_UNIV by simp

lemma error_type_UNIV:
  "(UNIV :: error_type set) =
     {error_type.INVALID, ID_UNDEFINED, ID_UNDEFINEDN, IF_UNDEFINED, INDEX_ERROR,
      EXECUTION_EXC, INTERRUPT_EXC, INVALID_N_EL_RHS_IN_ASSIGNMENT,
      RHS_UNDEF_IN_ASSIGNMENT, BAD_ALLOC, EXIT_EXCEPTION}"
  by (auto intro: error_type.exhaust)

lemma error_type_card: "card (UNIV :: error_type set) = 11"
  unfolding error_type_UNIV by simp

lemma kind_of_construct_range:
  "range kind_of_construct = {FOR_LOOP, TRY_CATCH, UNWIND_PROTECT}"
proof
  show "range kind_of_construct \<subseteq> {FOR_LOOP, TRY_CATCH, UNWIND_PROTECT}"
  proof
    fix k
    assume "k \<in> range kind_of_construct"
    then obtain c where "k = kind_of_construct c" by blast
    then show "k \<in> {FOR_LOOP, TRY_CATCH, UNWIND_PROTECT}" by (cases c) simp_all
  qed
next
  have "FOR_LOOP = kind_of_construct Loop_body"
    and "TRY_CATCH = kind_of_construct Try_catch_pair"
    and "UNWIND_PROTECT = kind_of_construct Unwind_protect_block"
    by simp_all
  then show "{FOR_LOOP, TRY_CATCH, UNWIND_PROTECT} \<subseteq> range kind_of_construct"
    by (metis empty_subsetI insert_subset rangeI)
qed

section \<open>The storage-class tag set (C5)\<close>

text \<open>
  Claim C5 says that the \<open>global_type\<close> tag set consists of exactly four classes:
  ordinary, global, persistent and global-or-persistent.  The enumeration does not
  have four tags.
\<close>

theorem global_type_not_four_tags: "card (UNIV :: global_type set) \<noteq> 4"
  using global_type_card by simp

text \<open>
  Claim C5, amended: the \<open>global_type\<close> tag set is closed and consists of exactly
  three classes, global, persistent and global-or-persistent; it has no tag for an
  ordinary variable.
\<close>

theorem global_type_three_tags:
  "(UNIV :: global_type set) = {GLOBAL, PERSISTENT, GLOBAL_OR_PERSISTENT}
   \<and> card (UNIV :: global_type set) = 3"
  using global_type_UNIV global_type_card by simp

section \<open>The shape of an unwind entry (C6)\<close>

text \<open>
  Claim C6: an unwind entry consists exactly of a guarded instruction range (start
  and end), a resume/handler target ip, an operand-stack depth to restore and a
  construct kind, and the kind type is closed (its only other tag is \<open>INVALID\<close>).
  The entry emitted for a protected construct records the range, target and depth it
  was given, and its kind is one of loop, try/catch and unwind-protect, never
  \<open>INVALID\<close>.  Each of the three kinds is the kind of some construct.
\<close>

theorem unwind_entry_fields_and_kinds:
  "(e :: unwind_entry) =
     \<lparr>unwind_entry.m_ip_start = unwind_entry.m_ip_start e,
      unwind_entry.m_ip_end = unwind_entry.m_ip_end e,
      m_ip_target = m_ip_target e,
      m_stack_depth = m_stack_depth e,
      m_unwind_entry_type = m_unwind_entry_type e\<rparr>
   \<and> m_unwind_entry_type e
       \<in> {unwind_entry_type.INVALID, FOR_LOOP, TRY_CATCH, UNWIND_PROTECT}
   \<and> unwind_entry.m_ip_start (emit_unwind_entry c ip_start ip_end ip_target depth) = ip_start
   \<and> unwind_entry.m_ip_end (emit_unwind_entry c ip_start ip_end ip_target depth) = ip_end
   \<and> m_ip_target (emit_unwind_entry c ip_start ip_end ip_target depth) = ip_target
   \<and> m_stack_depth (emit_unwind_entry c ip_start ip_end ip_target depth) = depth
   \<and> m_unwind_entry_type (emit_unwind_entry c ip_start ip_end ip_target depth)
       \<in> {FOR_LOOP, TRY_CATCH, UNWIND_PROTECT}
   \<and> m_unwind_entry_type (emit_unwind_entry c ip_start ip_end ip_target depth)
       \<noteq> unwind_entry_type.INVALID
   \<and> range kind_of_construct = {FOR_LOOP, TRY_CATCH, UNWIND_PROTECT}"
proof -
  have "kind_of_construct c \<in> {FOR_LOOP, TRY_CATCH, UNWIND_PROTECT}"
    by (cases c) simp_all
  moreover have "kind_of_construct c \<noteq> unwind_entry_type.INVALID"
    by (cases c) simp_all
  moreover have "m_unwind_entry_type e
      \<in> {unwind_entry_type.INVALID, FOR_LOOP, TRY_CATCH, UNWIND_PROTECT}"
    using unwind_entry_type_UNIV by blast
  ultimately show ?thesis
    using kind_of_construct_range by (simp add: emit_unwind_entry_def)
qed

section \<open>The default source location (C9)\<close>

text \<open>
  Claim C9: a default-constructed \<open>loc_entry\<close> has all four members (ip-range start,
  ip-range end, column, line) equal to \<open>-1\<close>.  Its instruction range is empty: no ip
  lies in the half-open range from start to end, and no non-negative ip lies in it
  even when the end is taken as included.  Its line and column are negative, so a
  lookup that answers with a default entry yields no line and no column.
\<close>

theorem default_loc_entry_unknown:
  "sint (loc_entry.m_ip_start default_loc_entry) = - 1
   \<and> sint (loc_entry.m_ip_end default_loc_entry) = - 1
   \<and> sint (m_col default_loc_entry) = - 1
   \<and> sint (m_line default_loc_entry) = - 1
   \<and> \<not> (loc_entry.m_ip_start default_loc_entry \<le>s ip
        \<and> ip <s loc_entry.m_ip_end default_loc_entry)
   \<and> \<not> (0 \<le>s ip \<and> loc_entry.m_ip_start default_loc_entry \<le>s ip
        \<and> ip \<le>s loc_entry.m_ip_end default_loc_entry)
   \<and> m_line default_loc_entry <s 0
   \<and> m_col default_loc_entry <s 0"
  by (simp add: default_loc_entry_def word_sle_eq word_sless_alt)

end
